theory Spec2Isabelle
  imports Complex_Main "HOL-Library.Log_Nat"
begin

section \<open>The C++ type double: IEEE 754 binary64, round to nearest even\<close>

text \<open>
  \<open>wood.cpp\<close> keeps thickness, moisture and thresholds in \<open>double\<close> and uses two
  operations on them: the product \<open>m * 0.8\<close> and the comparison \<open>m > v\<close>.
  A double is NaN, an infinity with its sign, or a finite number \<open>(-1)^s * m * 2^e\<close>
  given by its sign bit \<open>s\<close>, its integer significand \<open>m < 2^53\<close> and its exponent
  \<open>-1074 \<le> e \<le> 971\<close>. The representation is normalised: \<open>2^52 \<le> m\<close> unless
  \<open>e = -1074\<close> (subnormal numbers and the two zeros).
\<close>

datatype double = DNaN | DInf bool | DFin bool nat int

fun valid_double :: "double \<Rightarrow> bool" where
  "valid_double DNaN = True"
| "valid_double (DInf s) = True"
| "valid_double (DFin s m e) =
     (m < 2 ^ 53 \<and> - 1074 \<le> e \<and> e \<le> 971 \<and> (2 ^ 52 \<le> m \<or> e = - 1074))"

definition pow2 :: "int \<Rightarrow> rat" where
  "pow2 e = (if 0 \<le> e then 2 ^ nat e else 1 / 2 ^ nat (- e))"

definition fin_val :: "bool \<Rightarrow> nat \<Rightarrow> int \<Rightarrow> rat" where
  "fin_val s m e = (if s then - (of_nat m * pow2 e) else of_nat m * pow2 e)"

text \<open>
  \<open>rne_shift M k\<close> is \<open>M / 2^k\<close> rounded to the nearest integer, ties to the even one.
\<close>

definition rne_shift :: "nat \<Rightarrow> nat \<Rightarrow> nat" where
  "rne_shift M k =
     (let q = M div 2 ^ k; r = M mod 2 ^ k
      in if k = 0 then M
         else if 2 ^ (k - 1) < r \<or> (r = 2 ^ (k - 1) \<and> odd q) then q + 1 else q)"

text \<open>
  \<open>round_fin s M E\<close> rounds the exact number \<open>(-1)^s * M * 2^E\<close> to a double: the
  exponent is chosen so that the significand has 53 bits (or is \<open>-1074\<close>, the subnormal
  range), the significand is rounded to nearest even, a carry into bit 53 moves to the
  next exponent, and a number beyond the largest finite double becomes an infinity.
\<close>

definition round_fin :: "bool \<Rightarrow> nat \<Rightarrow> int \<Rightarrow> double" where
  "round_fin s M E =
     (if M = 0 then DFin s 0 (- 1074)
      else
        let e = max (bitlen (int M) - 53 + E) (- 1074);
            m = (if e \<le> E then M * 2 ^ nat (E - e) else rne_shift M (nat (e - E)));
            m' = (if m = 2 ^ 53 then 2 ^ 52 else m);
            e' = (if m = 2 ^ 53 then e + 1 else e)
        in if 971 < e' then DInf s else DFin s m' e')"

fun dmul :: "double \<Rightarrow> double \<Rightarrow> double" where
  "dmul DNaN b = DNaN"
| "dmul (DInf s) DNaN = DNaN"
| "dmul (DFin s m e) DNaN = DNaN"
| "dmul (DInf s) (DInf s') = DInf (s \<noteq> s')"
| "dmul (DInf s) (DFin s' m' e') = (if m' = 0 then DNaN else DInf (s \<noteq> s'))"
| "dmul (DFin s m e) (DInf s') = (if m = 0 then DNaN else DInf (s \<noteq> s'))"
| "dmul (DFin s m e) (DFin s' m' e') = round_fin (s \<noteq> s') (m * m') (e + e')"

text \<open>The comparisons of C++ on doubles: every comparison with NaN is false, and the two
  zeros are equal.\<close>

fun dless :: "double \<Rightarrow> double \<Rightarrow> bool" where
  "dless DNaN b = False"
| "dless (DInf s) DNaN = False"
| "dless (DFin s m e) DNaN = False"
| "dless (DInf s) (DInf s') = (s \<and> \<not> s')"
| "dless (DInf s) (DFin s' m' e') = s"
| "dless (DFin s m e) (DInf s') = (\<not> s')"
| "dless (DFin s m e) (DFin s' m' e') = (fin_val s m e < fin_val s' m' e')"

fun deq :: "double \<Rightarrow> double \<Rightarrow> bool" where
  "deq DNaN b = False"
| "deq (DInf s) DNaN = False"
| "deq (DFin s m e) DNaN = False"
| "deq (DInf s) (DInf s') = (s = s')"
| "deq (DInf s) (DFin s' m' e') = False"
| "deq (DFin s m e) (DInf s') = False"
| "deq (DFin s m e) (DFin s' m' e') = (fin_val s m e = fin_val s' m' e')"

definition dgt :: "double \<Rightarrow> double \<Rightarrow> bool" where
  "dgt a b = dless b a"

definition dle :: "double \<Rightarrow> double \<Rightarrow> bool" where
  "dle a b = (dless a b \<or> deq a b)"

text \<open>The literal \<open>0.8\<close>: the double nearest to \<open>4/5\<close>, bit pattern \<open>3FE999999999999A\<close>.\<close>

definition d0_8 :: double where
  "d0_8 = DFin False 7205759403792794 (- 53)"

text \<open>A literal with a finite binary expansion, \<open>M * 2^E\<close>, such as \<open>12.5 = 25 * 2^-1\<close>.\<close>

definition dlit :: "nat \<Rightarrow> int \<Rightarrow> double" where
  "dlit M E = round_fin False M E"

definition dzero :: double where
  "dzero = DFin False 0 (- 1074)"

text \<open>
  The formula of the specification for the moisture after \<open>n\<close> applications of
  \<open>DryWood\<close>, \<open>m * 0.8^n\<close>, in the arithmetic of the program: the power by repeated
  multiplication of doubles from \<open>1.0\<close>, then one product with \<open>m\<close>.
\<close>

fun dpow :: "double \<Rightarrow> nat \<Rightarrow> double" where
  "dpow x 0 = dlit 1 0"
| "dpow x (Suc n) = dmul (dpow x n) x"

definition spec_dry_moisture :: "double \<Rightarrow> nat \<Rightarrow> double" where
  "spec_dry_moisture m n = dmul m (dpow d0_8 n)"

section \<open>Actions and items\<close>

text \<open>
  The four subclasses of \<open>WoodAction\<close> with their construction parameters. An action
  object is immutable after construction, so it is modelled by its value.
\<close>

datatype WoodAction =
    CutWood double
  | DryWood
  | TreatWood
  | ConditionalTreatment WoodAction string double

record WoodItem =
  type :: string
  thickness :: double
  moisture_content :: double
  is_treated :: bool
  processing_steps :: "WoodAction list"

definition getType :: "WoodItem \<Rightarrow> string" where
  "getType item = type item"

definition getThickness :: "WoodItem \<Rightarrow> double" where
  "getThickness item = thickness item"

definition getMoisture :: "WoodItem \<Rightarrow> double" where
  "getMoisture item = moisture_content item"

definition isTreated :: "WoodItem \<Rightarrow> bool" where
  "isTreated item = is_treated item"

definition setMoisture :: "double \<Rightarrow> WoodItem \<Rightarrow> WoodItem" where
  "setMoisture m item = item\<lparr>moisture_content := m\<rparr>"

definition setTreated :: "bool \<Rightarrow> WoodItem \<Rightarrow> WoodItem" where
  "setTreated t item = item\<lparr>is_treated := t\<rparr>"

fun perform :: "WoodAction \<Rightarrow> WoodItem \<Rightarrow> WoodItem" where
  "perform (CutWood cut_length) item = item"
| "perform DryWood item = setMoisture (dmul (getMoisture item) d0_8) item"
| "perform TreatWood item = setTreated True item"
| "perform (ConditionalTreatment inner_action condition_type condition_value) item =
     (if condition_type = ''MoistureAbove'' \<and> dgt (getMoisture item) condition_value
      then perform inner_action item
      else item)"

text \<open>The loop of \<open>WoodItem::process\<close> over \<open>processing_steps\<close>.\<close>

fun process_loop :: "WoodAction list \<Rightarrow> WoodItem \<Rightarrow> WoodItem" where
  "process_loop [] item = item"
| "process_loop (step # steps) item = process_loop steps (perform step item)"

definition process :: "WoodItem \<Rightarrow> WoodItem" where
  "process item = process_loop (processing_steps item) item"

text \<open>The constructor of \<open>WoodItem\<close>.\<close>

definition new_WoodItem ::
  "string \<Rightarrow> double \<Rightarrow> double \<Rightarrow> bool \<Rightarrow> WoodAction list \<Rightarrow> WoodItem" where
  "new_WoodItem t thick moisture treated steps =
     \<lparr>type = t, thickness = thick, moisture_content = moisture,
      is_treated = treated, processing_steps = steps\<rparr>"

section \<open>The inventory\<close>

text \<open>
  \<open>WoodInventory\<close> holds pointers to items. A pointer is an index into the store of
  allocated items, so that the same item may be added twice, as in the code.
\<close>

type_synonym item_ptr = nat

record WoodInventory =
  items :: "item_ptr list"

definition new_WoodInventory :: WoodInventory where
  "new_WoodInventory = \<lparr>items = []\<rparr>"

definition addItem :: "WoodInventory \<Rightarrow> item_ptr \<Rightarrow> WoodInventory" where
  "addItem inventory item = inventory\<lparr>items := items inventory @ [item]\<rparr>"

definition getItems :: "WoodInventory \<Rightarrow> item_ptr list" where
  "getItems inventory = items inventory"

text \<open>
  \<open>processAll\<close> calls \<open>process\<close> through each pointer in turn. A pointer to no
  allocated item has no defined behaviour in C++: the result is \<open>None\<close>.
\<close>

fun processAll_loop :: "item_ptr list \<Rightarrow> WoodItem list \<Rightarrow> WoodItem list option" where
  "processAll_loop [] store = Some store"
| "processAll_loop (p # ps) store =
     (if p < length store then processAll_loop ps (store[p := process (store ! p)])
      else None)"

definition processAll :: "WoodInventory \<Rightarrow> WoodItem list \<Rightarrow> WoodItem list option" where
  "processAll inventory store = processAll_loop (items inventory) store"

section \<open>The tests and main\<close>

text \<open>\<open>new WoodItem(...)\<close>: the item is put into the store and its pointer returned.\<close>

definition alloc :: "WoodItem \<Rightarrow> WoodItem list \<Rightarrow> item_ptr \<times> WoodItem list" where
  "alloc item store = (length store, store @ [item])"

text \<open>
  Modelled from the spec: the macros \<open>TEST\<close>, \<open>ASSERT_EQ\<close> and \<open>ASSERT_TRUE\<close>
  of \<open>test1.h\<close>, which is not among the sources. By the spec a test case is a callable
  returning a boolean success indicator; a failed assertion makes it return false, and
  the body's own \<open>return true\<close> is reached otherwise. The bodies of the six test
  cases are those of \<open>wood.cpp\<close>.
\<close>

definition WoodTest_AddSingleItem :: bool where
  "WoodTest_AddSingleItem =
     (let inventory = new_WoodInventory;
          steps = [CutWood (dlit 5 (- 1))];
          (oak, store) = alloc (new_WoodItem ''Oak'' (dlit 25 0) (dlit 25 (- 1)) False steps) [];
          inventory = addItem inventory oak;
          its = getItems inventory
      in if length its \<noteq> 1 then False
         else if getType (store ! (its ! 0)) \<noteq> ''Oak'' then False
         else True)"

definition WoodTest_MultipleItemsCount :: bool where
  "WoodTest_MultipleItemsCount =
     (let inventory = new_WoodInventory;
          (pine, store) = alloc (new_WoodItem ''Pine'' (dlit 20 0) (dlit 10 0) False []) [];
          inventory = addItem inventory pine;
          (maple, store) = alloc (new_WoodItem ''Maple'' (dlit 30 0) (dlit 8 0) True []) store;
          inventory = addItem inventory maple
      in if length (getItems inventory) \<noteq> 2 then False else True)"

definition WoodTest_ProcessDrying :: bool where
  "WoodTest_ProcessDrying =
     (let inventory = new_WoodInventory;
          steps = [DryWood];
          (teak, store) = alloc (new_WoodItem ''Teak'' (dlit 15 0) (dlit 15 0) False steps) [];
          inventory = addItem inventory teak;
          initial_moisture = getMoisture (store ! teak)
      in case processAll inventory store of
           None \<Rightarrow> False
         | Some store \<Rightarrow>
             if \<not> dless (getMoisture (store ! teak)) initial_moisture then False else True)"

definition WoodTest_ConditionalTreatment :: bool where
  "WoodTest_ConditionalTreatment =
     (let inventory = new_WoodInventory;
          steps = [ConditionalTreatment TreatWood ''MoistureAbove'' (dlit 10 0)];
          (walnut, store) = alloc (new_WoodItem ''Walnut'' (dlit 18 0) (dlit 12 0) False steps) [];
          inventory = addItem inventory walnut
      in case processAll inventory store of
           None \<Rightarrow> False
         | Some store \<Rightarrow>
             if \<not> isTreated (store ! (getItems inventory ! 0)) then False else True)"

definition WoodTest_ThicknessUnchangedAfterProcessing :: bool where
  "WoodTest_ThicknessUnchangedAfterProcessing =
     (let inventory = new_WoodInventory;
          steps = [DryWood, TreatWood];
          initial_thickness = dlit 20 0;
          (mahogany, store) =
             alloc (new_WoodItem ''Mahogany'' initial_thickness (dlit 14 0) False steps) [];
          inventory = addItem inventory mahogany
      in case processAll inventory store of
           None \<Rightarrow> False
         | Some store \<Rightarrow>
             if \<not> deq (getThickness (store ! mahogany)) initial_thickness then False else True)"

definition WoodTest_UntreatedWhenMoistureBelowThreshold :: bool where
  "WoodTest_UntreatedWhenMoistureBelowThreshold =
     (let inventory = new_WoodInventory;
          steps = [ConditionalTreatment TreatWood ''MoistureAbove'' (dlit 15 0)];
          (cedar, store) = alloc (new_WoodItem ''Cedar'' (dlit 22 0) (dlit 12 0) False steps) [];
          inventory = addItem inventory cedar
      in case processAll inventory store of
           None \<Rightarrow> False
         | Some store \<Rightarrow>
             if \<not> (\<not> isTreated (store ! cedar)) then False else True)"

text \<open>
  Modelled from the spec: the macro \<open>RUN_TEST\<close> of \<open>test1.h\<close>, which is not among
  the sources. By the spec it executes the named case and reports pass or fail to an
  output stream; the stream is the list of the reports written so far.
\<close>

type_synonym test_output = "(string \<times> string \<times> bool) list"

definition RUN_TEST :: "string \<Rightarrow> string \<Rightarrow> bool \<Rightarrow> test_output \<Rightarrow> test_output" where
  "RUN_TEST test_group test_name outcome out = out @ [(test_group, test_name, outcome)]"

text \<open>
  \<open>main\<close>, as a function of the outcomes of the six test cases it runs: the output it
  writes and its return value.
\<close>

definition main :: "bool \<Rightarrow> bool \<Rightarrow> bool \<Rightarrow> bool \<Rightarrow> bool \<Rightarrow> bool \<Rightarrow> test_output \<times> int" where
  "main AddSingleItem MultipleItemsCount ProcessDrying ConditionalTreatment_case
        ThicknessUnchangedAfterProcessing UntreatedWhenMoistureBelowThreshold =
     (let out = [];
          out = RUN_TEST ''WoodTest'' ''AddSingleItem'' AddSingleItem out;
          out = RUN_TEST ''WoodTest'' ''MultipleItemsCount'' MultipleItemsCount out;
          out = RUN_TEST ''WoodTest'' ''ProcessDrying'' ProcessDrying out;
          out = RUN_TEST ''WoodTest'' ''ConditionalTreatment'' ConditionalTreatment_case out;
          out = RUN_TEST ''WoodTest'' ''ThicknessUnchangedAfterProcessing''
                  ThicknessUnchangedAfterProcessing out;
          out = RUN_TEST ''WoodTest'' ''UntreatedWhenMoistureBelowThreshold''
                  UntreatedWhenMoistureBelowThreshold out
      in (out, 0))"

section \<open>Theorems\<close>

lemma perform_frame:
  "type (perform a item) = type item \<and>
   thickness (perform a item) = thickness item \<and>
   processing_steps (perform a item) = processing_steps item"
  by (induction a arbitrary: item) (simp_all add: setMoisture_def setTreated_def)

lemma process_loop_frame:
  "type (process_loop steps item) = type item \<and>
   thickness (process_loop steps item) = thickness item \<and>
   processing_steps (process_loop steps item) = processing_steps item"
  by (induction steps arbitrary: item) (simp_all add: perform_frame)

lemma process_frame:
  "type (process item) = type item \<and>
   thickness (process item) = thickness item \<and>
   processing_steps (process item) = processing_steps item"
  by (simp add: process_def process_loop_frame)

subsection \<open>Comparisons\<close>

lemma deq_not_dless: "deq a b \<Longrightarrow> \<not> dless b a"
  by (cases a; cases b) auto

lemma deq_not_dgt: "deq a b \<Longrightarrow> \<not> dgt a b"
  by (simp add: dgt_def deq_not_dless)

subsection \<open>Rounding\<close>

lemma pow2_pos: "0 < pow2 e"
  by (simp add: pow2_def)

lemma pow2_nat: "pow2 (int n) = 2 ^ n"
  by (simp add: pow2_def)

lemma pow2_powi: "pow2 e = 2 powi e"
  by (simp add: pow2_def power_int_def field_simps)

lemma pow2_add: "pow2 (a + b) = pow2 a * pow2 b"
  by (simp add: pow2_powi power_int_add)

lemma scaled_le_iff:
  assumes "x \<le> y"
  shows "((of_nat a :: rat) * pow2 x \<le> of_nat b * pow2 y) = (a \<le> b * 2 ^ nat (y - x))"
proof -
  have "pow2 (int (nat (y - x))) = 2 ^ nat (y - x)"
    by (rule pow2_nat)
  moreover have "int (nat (y - x)) = y - x"
    using assms by simp
  ultimately have "pow2 (y - x) = 2 ^ nat (y - x)"
    by simp
  then have "pow2 y = pow2 x * 2 ^ nat (y - x)"
    using pow2_add [of x "y - x"] by simp
  then have "((of_nat a :: rat) * pow2 x \<le> of_nat b * pow2 y)
      = (of_nat a * pow2 x \<le> (of_nat (b * 2 ^ nat (y - x)) :: rat) * pow2 x)"
    by (simp add: ac_simps)
  also have "\<dots> = ((of_nat a :: rat) \<le> of_nat (b * 2 ^ nat (y - x)))"
    using pow2_pos [of x] by (simp only: mult_le_cancel_right_pos)
  also have "\<dots> = (a \<le> b * 2 ^ nat (y - x))"
    by (simp only: of_nat_le_iff)
  finally show ?thesis .
qed

lemma rne_shift_le: "M \<le> K * 2 ^ k \<Longrightarrow> rne_shift M k \<le> K"
proof (cases "k = 0")
  case True
  assume "M \<le> K * 2 ^ k"
  with True show ?thesis by (simp add: rne_shift_def)
next
  case False
  then have k: "k \<noteq> 0" .
  assume le: "M \<le> K * 2 ^ k"
  have q: "M div 2 ^ k \<le> K"
    using le by (metis div_le_mono nonzero_mult_div_cancel_right power_not_zero zero_neq_numeral)
  show ?thesis
  proof (cases "M div 2 ^ k = K")
    case True
    have "M div 2 ^ k * 2 ^ k \<le> M"
      by (simp add: div_times_less_eq_dividend)
    with True have "K * 2 ^ k \<le> M" by simp
    with le have "M = K * 2 ^ k" by simp
    then have "M mod 2 ^ k = 0" by simp
    with k True show ?thesis by (simp add: rne_shift_def Let_def)
  next
    case False
    with q have "M div 2 ^ k < K" by simp
    with k show ?thesis by (simp add: rne_shift_def Let_def)
  qed
qed

lemma rne_shift_ge: "K * 2 ^ k \<le> M \<Longrightarrow> K \<le> rne_shift M k"
proof -
  assume le: "K * 2 ^ k \<le> M"
  have "K \<le> M div 2 ^ k"
    using le by (simp add: less_eq_div_iff_mult_less_eq)
  then show ?thesis
    using le by (auto simp add: rne_shift_def Let_def)
qed

lemma bitlen_nat_bounds:
  assumes "0 < M"
  obtains n where "bitlen (int M) = int n" "0 < n" "2 ^ (n - 1) \<le> M" "M < 2 ^ n"
proof -
  define n where "n = nat (bitlen (int M))"
  have pos: "0 < bitlen (int M)"
    using assms bitlen_eq_zero_iff [of "int M"] bitlen_nonneg [of "int M"] by linarith
  then have b: "bitlen (int M) = int n"
    by (simp add: n_def)
  have n0: "0 < n"
    using pos by (simp add: n_def)
  from bitlen_bounds [of "int M"] assms
  have "2 ^ nat (bitlen (int M) - 1) \<le> int M" "int M < 2 ^ nat (bitlen (int M))"
    by simp_all
  moreover have "nat (bitlen (int M) - 1) = n - 1"
    by (simp add: n_def nat_diff_distrib)
  ultimately have "(2::int) ^ (n - 1) \<le> int M" "int M < 2 ^ n"
    by (simp_all add: n_def)
  then have "2 ^ (n - 1) \<le> M" "M < 2 ^ n"
    by simp_all
  with b n0 show thesis
    by (rule that)
qed

lemma valid_round_fin: "valid_double (round_fin s M E)"
proof (cases "M = 0")
  case True
  then show ?thesis by (simp add: round_fin_def)
next
  case False
  then have "0 < M" by simp
  then obtain n where n: "bitlen (int M) = int n" "0 < n" "2 ^ (n - 1) \<le> M" "M < 2 ^ n"
    by (rule bitlen_nat_bounds)
  define e where "e = max (int n - 53 + E) (- 1074)"
  define m where "m = (if e \<le> E then M * 2 ^ nat (E - e) else rne_shift M (nat (e - E)))"
  have res: "round_fin s M E =
      (if 971 < (if m = 2 ^ 53 then e + 1 else e) then DInf s
       else DFin s (if m = 2 ^ 53 then 2 ^ 52 else m) (if m = 2 ^ 53 then e + 1 else e))"
    using False by (simp only: round_fin_def Let_def n e_def m_def if_False)
  have elow: "- 1074 \<le> e"
    by (simp add: e_def)
  have up: "m \<le> 2 ^ 53"
  proof (cases "e \<le> E")
    case True
    have "n + nat (E - e) \<le> 53"
      using True unfolding e_def by arith
    then have "(2::nat) ^ (n + nat (E - e)) \<le> 2 ^ 53"
      by (rule power_increasing) simp
    moreover have "M * 2 ^ nat (E - e) \<le> 2 ^ n * 2 ^ nat (E - e)"
      using n(4) by simp
    ultimately have "M * 2 ^ nat (E - e) \<le> 2 ^ 53"
      by (simp only: power_add)
    then show ?thesis
      using True by (simp only: m_def if_True)
  next
    case False
    have "n \<le> 53 + nat (e - E)"
      using False unfolding e_def by arith
    then have "(2::nat) ^ n \<le> 2 ^ (53 + nat (e - E))"
      by (rule power_increasing) simp
    with n(4) have "M \<le> 2 ^ 53 * 2 ^ nat (e - E)"
      by (simp only: power_add)
    then have "rne_shift M (nat (e - E)) \<le> 2 ^ 53"
      by (rule rne_shift_le)
    then show ?thesis
      using False by (simp only: m_def if_False)
  qed
  have low: "2 ^ 52 \<le> m" if "e \<noteq> - 1074"
  proof -
    from that have e0: "e = int n - 53 + E"
      unfolding e_def by arith
    show ?thesis
    proof (cases "e \<le> E")
      case True
      have "52 = (n - 1) + nat (E - e)"
        using True n(2) e0 by arith
      then have "(2::nat) ^ 52 = 2 ^ (n - 1) * 2 ^ nat (E - e)"
        by (simp only: power_add)
      also have "\<dots> \<le> M * 2 ^ nat (E - e)"
        using n(3) by simp
      finally show ?thesis
        using True by (simp only: m_def if_True)
    next
      case False
      have "n - 1 = 52 + nat (e - E)"
        using False n(2) e0 by arith
      then have "(2::nat) ^ 52 * 2 ^ nat (e - E) = 2 ^ (n - 1)"
        by (simp only: power_add)
      with n(3) have "2 ^ 52 * 2 ^ nat (e - E) \<le> M"
        by simp
      then have "2 ^ 52 \<le> rne_shift M (nat (e - E))"
        by (rule rne_shift_ge)
      then show ?thesis
        using False by (simp only: m_def if_False)
    qed
  qed
  show ?thesis
  proof (cases "m = 2 ^ 53")
    case True
    with res elow show ?thesis by simp
  next
    case False
    with up have "m < 2 ^ 53" by simp
    with res elow low False show ?thesis by auto
  qed
qed

lemma valid_dmul: "valid_double (dmul a b)"
  by (cases a; cases b) (simp_all add: valid_round_fin)

lemma round_fin_le:
  assumes M: "0 < M" and m: "m < 2 ^ 53" and e: "- 1074 \<le> e" "e \<le> 971" and E: "E \<le> e"
    and le: "M \<le> m * 2 ^ nat (e - E)"
  shows "\<exists>m' e'. round_fin s M E = DFin s m' e' \<and>
           (of_nat m' :: rat) * pow2 e' \<le> of_nat m * pow2 e"
proof -
  from M obtain n where n: "bitlen (int M) = int n" "0 < n" "2 ^ (n - 1) \<le> M" "M < 2 ^ n"
    by (rule bitlen_nat_bounds)
  define er where "er = max (int n - 53 + E) (- 1074)"
  define mr where "mr = (if er \<le> E then M * 2 ^ nat (E - er) else rne_shift M (nat (er - E)))"
  from M have "M \<noteq> 0" by simp
  then have res: "round_fin s M E =
      (if 971 < (if mr = 2 ^ 53 then er + 1 else er) then DInf s
       else DFin s (if mr = 2 ^ 53 then 2 ^ 52 else mr) (if mr = 2 ^ 53 then er + 1 else er))"
    by (simp only: round_fin_def Let_def n er_def mr_def if_False)
  have "m * 2 ^ nat (e - E) < 2 ^ 53 * 2 ^ nat (e - E)"
    using m by simp
  with le n(3) have "(2::nat) ^ (n - 1) < 2 ^ (53 + nat (e - E))"
    by (simp only: power_add)
  then have "n - 1 < 53 + nat (e - E)"
    by (simp only: power_strict_increasing_iff one_less_numeral_iff semiring_norm)
  with n(2) E have n_le: "int n \<le> 53 + (e - E)"
    by arith
  with e(1) have er_le: "er \<le> e"
    unfolding er_def by arith
  have mr_le: "mr \<le> m * 2 ^ nat (e - er)"
  proof (cases "er \<le> E")
    case True
    have "nat (e - er) = nat (e - E) + nat (E - er)"
      using True E by arith
    then have "m * 2 ^ nat (e - er) = m * 2 ^ nat (e - E) * 2 ^ nat (E - er)"
      by (simp only: power_add mult.assoc)
    moreover have "M * 2 ^ nat (E - er) \<le> m * 2 ^ nat (e - E) * 2 ^ nat (E - er)"
      using le by simp
    ultimately show ?thesis
      using True by (simp only: mr_def if_True)
  next
    case False
    have "nat (e - E) = nat (e - er) + nat (er - E)"
      using False er_le by arith
    then have "m * 2 ^ nat (e - E) = m * 2 ^ nat (e - er) * 2 ^ nat (er - E)"
      by (simp only: power_add mult.assoc)
    with le have "M \<le> m * 2 ^ nat (e - er) * 2 ^ nat (er - E)"
      by simp
    then have "rne_shift M (nat (er - E)) \<le> m * 2 ^ nat (e - er)"
      by (rule rne_shift_le)
    then show ?thesis
      using False by (simp only: mr_def if_False)
  qed
  then have val: "(of_nat mr :: rat) * pow2 er \<le> of_nat m * pow2 e"
    by (simp only: scaled_le_iff [OF er_le])
  show ?thesis
  proof (cases "mr = 2 ^ 53")
    case True
    have "er \<noteq> e"
    proof
      assume "er = e"
      with mr_le True m show False by simp
    qed
    with er_le e(2) have novf: "\<not> 971 < er + 1"
      by arith
    have "pow2 (er + 1) = pow2 er * 2"
      using pow2_add [of er 1] pow2_nat [of 1] by simp
    then have "(of_nat (2 ^ 52) :: rat) * pow2 (er + 1) = of_nat mr * pow2 er"
      using True by simp
    with val have "(of_nat (2 ^ 52) :: rat) * pow2 (er + 1) \<le> of_nat m * pow2 e"
      by (simp only:)
    moreover have "round_fin s M E = DFin s (2 ^ 52) (er + 1)"
      using res True novf by (simp only: if_True if_False refl simp_thms)
    ultimately show ?thesis
      by blast
  next
    case False
    have "\<not> 971 < er"
      using er_le e(2) by arith
    with res False have "round_fin s M E = DFin s mr er"
      by (simp only: if_False)
    with val show ?thesis
      by blast
  qed
qed

lemma dle_fin: "dle (DFin s m e) (DFin s' m' e') = (fin_val s m e \<le> fin_val s' m' e')"
  by (auto simp add: dle_def)

lemma dle_trans: "dle a b \<Longrightarrow> dle b c \<Longrightarrow> dle a c"
  by (cases a; cases b; cases c) (auto simp add: dle_def)

lemma dle_refl: "dle dzero a \<Longrightarrow> dle a a"
  by (cases a) (auto simp add: dle_def dzero_def)

lemma dmul_d0_8_le:
  assumes v: "valid_double x" and nonneg: "dle dzero x"
  shows "dle dzero (dmul x d0_8) \<and> dle (dmul x d0_8) x"
proof (cases x)
  case DNaN
  with nonneg show ?thesis by (simp add: dle_def dzero_def)
next
  case (DInf s)
  with nonneg show ?thesis by (simp add: dle_def dzero_def d0_8_def)
next
  case (DFin s m e)
  show ?thesis
  proof (cases "m = 0")
    case True
    with DFin show ?thesis
      by (simp add: d0_8_def dzero_def round_fin_def dle_fin fin_val_def)
  next
    case False
    then have mpos: "0 < m" by simp
    have s: "\<not> s"
    proof
      assume "s"
      with nonneg DFin have "0 \<le> - (of_nat m * pow2 e)"
        by (simp add: dzero_def dle_fin fin_val_def)
      moreover have "0 < (of_nat m :: rat) * pow2 e"
        using mpos pow2_pos [of e] by simp
      ultimately show False by simp
    qed
    from v DFin have m: "m < 2 ^ 53" and e: "- 1074 \<le> e" "e \<le> 971"
      by simp_all
    have M: "0 < m * 7205759403792794"
      using mpos by simp
    have le: "m * 7205759403792794 \<le> m * 2 ^ nat (e - (e + - 53))"
      by simp
    from round_fin_le [OF M m e _ le, of False]
    obtain m' e' where r: "round_fin False (m * 7205759403792794) (e + - 53) = DFin False m' e'"
      and val: "(of_nat m' :: rat) * pow2 e' \<le> of_nat m * pow2 e"
      by auto
    have "0 \<le> (of_nat m' :: rat) * pow2 e'"
      using pow2_pos [of e'] by simp
    with r val DFin s show ?thesis
      by (simp add: d0_8_def dzero_def dle_fin fin_val_def)
  qed
qed

lemma round_fin_sign_cong: "s = s' \<Longrightarrow> round_fin s M E = round_fin s' M E"
  by simp

lemma dmul_commute: "dmul a b = dmul b a"
  by (cases a; cases b)
    (auto simp add: mult.commute add.commute intro!: round_fin_sign_cong)

text \<open>The literal \<open>0.8\<close> is the double nearest to \<open>4/5\<close>: its two neighbours are
  further away.\<close>

lemma d0_8_nearest:
  "d0_8 = DFin False 7205759403792794 (- 53)
   \<and> valid_double d0_8
   \<and> \<bar>fin_val False 7205759403792794 (- 53) - 4 / 5\<bar>
        < \<bar>fin_val False 7205759403792793 (- 53) - 4 / 5\<bar>
   \<and> \<bar>fin_val False 7205759403792794 (- 53) - 4 / 5\<bar>
        < \<bar>fin_val False 7205759403792795 (- 53) - 4 / 5\<bar>"
  by (simp add: d0_8_def fin_val_def pow2_def)

subsection \<open>The actions\<close>

text \<open>
  C1. \<open>ConditionalTreatment\<close> wrapping \<open>TreatWood\<close> with condition
  \<open>"MoistureAbove"\<close> and threshold \<open>t\<close> marks the item treated exactly when its
  moisture is strictly greater than \<open>t\<close>, and otherwise leaves the item as it is; in
  particular an item whose moisture equals \<open>t\<close> is unchanged.
\<close>

theorem conditional_treat_moisture_above:
  "perform (ConditionalTreatment TreatWood ''MoistureAbove'' t) item =
     (if dgt (getMoisture item) t then item\<lparr>is_treated := True\<rparr> else item)
   \<and> (\<not> isTreated item \<longrightarrow>
        (isTreated (perform (ConditionalTreatment TreatWood ''MoistureAbove'' t) item)
           \<longleftrightarrow> dgt (getMoisture item) t))
   \<and> (deq (getMoisture item) t \<longrightarrow>
        perform (ConditionalTreatment TreatWood ''MoistureAbove'' t) item = item)"
  by (simp add: setTreated_def isTreated_def deq_not_dgt)

theorem conditional_treat_moisture_above_witness:
  "\<not> isTreated (new_WoodItem ''Walnut'' (dlit 18 0) (dlit 10 0) False [])
   \<and> deq (getMoisture (new_WoodItem ''Walnut'' (dlit 18 0) (dlit 10 0) False [])) (dlit 10 0)
   \<and> perform (ConditionalTreatment TreatWood ''MoistureAbove'' (dlit 10 0))
        (new_WoodItem ''Walnut'' (dlit 18 0) (dlit 10 0) False [])
      = new_WoodItem ''Walnut'' (dlit 18 0) (dlit 10 0) False []
   \<and> \<not> isTreated (new_WoodItem ''Walnut'' (dlit 18 0) (dlit 12 0) False [])
   \<and> isTreated (perform (ConditionalTreatment TreatWood ''MoistureAbove'' (dlit 10 0))
        (new_WoodItem ''Walnut'' (dlit 18 0) (dlit 12 0) False []))"
  using conditional_treat_moisture_above
          [of "dlit 10 0" "new_WoodItem ''Walnut'' (dlit 18 0) (dlit 10 0) False []"]
        conditional_treat_moisture_above
          [of "dlit 10 0" "new_WoodItem ''Walnut'' (dlit 18 0) (dlit 12 0) False []"]
  by (simp add: new_WoodItem_def isTreated_def getMoisture_def dgt_def dlit_def
        round_fin_def rne_shift_def Let_def compute_bitlen fin_val_def pow2_def)

text \<open>
  C6. A \<open>ConditionalTreatment\<close> whose condition is any string other than
  \<open>"MoistureAbove"\<close> returns the item as it was, whatever the wrapped action, the
  threshold and the item are. \<open>perform\<close> is a total function with no error result.
\<close>

theorem unrecognized_condition_noop:
  "condition_type \<noteq> ''MoistureAbove'' \<Longrightarrow>
   perform (ConditionalTreatment inner_action condition_type condition_value) item = item"
  by simp

theorem unrecognized_condition_noop_witness:
  "''MoistureBelow'' \<noteq> ''MoistureAbove''
   \<and> perform (ConditionalTreatment TreatWood ''MoistureBelow'' (dlit 10 0))
        (new_WoodItem ''Walnut'' (dlit 18 0) (dlit 12 0) False [])
      = new_WoodItem ''Walnut'' (dlit 18 0) (dlit 12 0) False []"
  using unrecognized_condition_noop
          [of "''MoistureBelow''" TreatWood "dlit 10 0"
              "new_WoodItem ''Walnut'' (dlit 18 0) (dlit 12 0) False []"]
  by simp

text \<open>
  C7. \<open>TreatWood\<close> sets \<open>is_treated\<close> to true whatever it was and changes no other
  field; performing it twice gives the same item as performing it once.
\<close>

theorem treat_idempotent:
  "perform TreatWood item = item\<lparr>is_treated := True\<rparr>
   \<and> isTreated (perform TreatWood item)
   \<and> perform TreatWood (perform TreatWood item) = perform TreatWood item"
  by (simp add: setTreated_def isTreated_def)

subsection \<open>Processing an item\<close>

lemma process_loop_append:
  "process_loop (xs @ ys) item = process_loop ys (process_loop xs item)"
  by (induction xs arbitrary: item) simp_all

lemma process_loop_fold: "process_loop steps item = fold perform steps item"
  by (induction steps arbitrary: item) simp_all

text \<open>
  C5. One call of \<open>process\<close> performs every action of the item's sequence once, in
  the order of the sequence, each on the state left by the one before: the result is the
  left-to-right fold of \<open>perform\<close> over the sequence, from the state at the start of
  the call. The loop never stops early: processing the sequence \<open>xs @ ys\<close> is
  processing \<open>xs\<close> and then \<open>ys\<close>.
\<close>

theorem process_is_fold:
  "process item = fold perform (processing_steps item) item
   \<and> process_loop (xs @ ys) item = process_loop ys (process_loop xs item)
   \<and> process_loop (xs @ [a]) item = perform a (process_loop xs item)"
  by (simp add: process_def process_loop_fold process_loop_append)

lemma process_funpow_frame:
  "type ((process ^^ k) item) = type item \<and>
   thickness ((process ^^ k) item) = thickness item \<and>
   processing_steps ((process ^^ k) item) = processing_steps item"
  by (induction k) (simp_all add: process_frame)

text \<open>
  C3. After any number \<open>k\<close> of calls of \<open>process\<close>, on an item constructed with any
  sequence of actions, the thickness is the one given to the constructor; no single
  action changes it either.
\<close>

theorem thickness_unchanged:
  "getThickness ((process ^^ k) (new_WoodItem t thick moisture treated steps)) = thick
   \<and> getThickness ((process ^^ k) item) = getThickness item
   \<and> getThickness (perform a item) = getThickness item"
proof -
  have "thickness (new_WoodItem t thick moisture treated steps) = thick"
    by (simp add: new_WoodItem_def)
  then show ?thesis
    by (simp add: getThickness_def process_funpow_frame perform_frame)
qed

lemma perform_treated: "is_treated item \<Longrightarrow> is_treated (perform a item)"
  by (induction a arbitrary: item) (simp_all add: setMoisture_def setTreated_def)

lemma process_loop_treated: "is_treated item \<Longrightarrow> is_treated (process_loop steps item)"
  by (induction steps arbitrary: item) (simp_all add: perform_treated)

text \<open>
  C9. An item that is treated before a call of \<open>process\<close> is treated after it,
  whatever its actions are: no action sets \<open>is_treated\<close> back to false.
\<close>

theorem treated_monotone:
  "isTreated item \<Longrightarrow> isTreated (process item)"
  by (simp add: isTreated_def process_def process_loop_treated)

theorem treated_monotone_witness:
  "isTreated (new_WoodItem ''Maple'' (dlit 30 0) (dlit 8 0) True
      [CutWood (dlit 5 (- 1)), DryWood, ConditionalTreatment DryWood ''MoistureAbove'' (dlit 1 0)])
   \<and> isTreated (process (new_WoodItem ''Maple'' (dlit 30 0) (dlit 8 0) True
      [CutWood (dlit 5 (- 1)), DryWood, ConditionalTreatment DryWood ''MoistureAbove'' (dlit 1 0)]))"
  using treated_monotone
          [of "new_WoodItem ''Maple'' (dlit 30 0) (dlit 8 0) True
      [CutWood (dlit 5 (- 1)), DryWood, ConditionalTreatment DryWood ''MoistureAbove'' (dlit 1 0)]"]
  by (simp add: new_WoodItem_def isTreated_def)


lemma perform_DryWood_funpow:
  "(perform DryWood ^^ n) item =
     item\<lparr>moisture_content := ((\<lambda>m. dmul m d0_8) ^^ n) (moisture_content item)\<rparr>"
  by (induction n) (simp_all add: setMoisture_def getMoisture_def)

text \<open>
  C2, as amended. One application of \<open>DryWood\<close> replaces the moisture \<open>m\<close> by the
  product of \<open>m\<close> and the double \<open>0.8\<close>, rounded to the nearest double, and changes
  no other field; after \<open>n\<close> applications the moisture is the result of \<open>n\<close> such
  rounded products in a row, and every other field is as before.
\<close>

theorem dry_rounded_product:
  "perform DryWood item = item\<lparr>moisture_content := dmul (moisture_content item) d0_8\<rparr>
   \<and> getMoisture (perform DryWood item) = dmul d0_8 (getMoisture item)
   \<and> (perform DryWood ^^ n) item =
        item\<lparr>moisture_content := ((\<lambda>m. dmul m d0_8) ^^ n) (moisture_content item)\<rparr>"
  by (simp add: perform_DryWood_funpow setMoisture_def getMoisture_def dmul_commute)

text \<open>
  C2 as stated fails. Two applications of \<open>DryWood\<close> to an item of moisture \<open>10.0\<close>
  leave the double \<open>7205759403792794 * 2^-50\<close> (printed \<open>6.4\<close>), while \<open>10.0 * 0.8^2\<close>
  is the next double, \<open>7205759403792795 * 2^-50\<close> (printed \<open>6.400000000000001\<close>). The
  moisture is not the exact number \<open>10 * (4/5)^2\<close> either, nor the exact product of
  \<open>10\<close> with the square of the double \<open>0.8\<close>.
\<close>

theorem dry_power_counterexample:
  "getMoisture ((perform DryWood ^^ 2)
      (new_WoodItem ''Teak'' (dlit 15 0) (dlit 10 0) False [DryWood]))
     = DFin False 7205759403792794 (- 50)
   \<and> spec_dry_moisture
       (getMoisture (new_WoodItem ''Teak'' (dlit 15 0) (dlit 10 0) False [DryWood])) 2
     = DFin False 7205759403792795 (- 50)
   \<and> getMoisture ((perform DryWood ^^ 2)
      (new_WoodItem ''Teak'' (dlit 15 0) (dlit 10 0) False [DryWood]))
     \<noteq> spec_dry_moisture
       (getMoisture (new_WoodItem ''Teak'' (dlit 15 0) (dlit 10 0) False [DryWood])) 2
   \<and> fin_val False 7205759403792794 (- 50) \<noteq> 10 * (4 / 5) ^ 2
   \<and> fin_val False 7205759403792794 (- 50)
     \<noteq> 10 * (fin_val False 7205759403792794 (- 53)) ^ 2"
proof -
  let ?item = "new_WoodItem ''Teak'' (dlit 15 0) (dlit 10 0) False [DryWood]"
  have m: "getMoisture ?item = dlit 10 0"
    by (simp add: new_WoodItem_def getMoisture_def)
  have "(perform DryWood ^^ 2) ?item = perform DryWood (perform DryWood ?item)"
    by (simp add: numeral_2_eq_2)
  then have "getMoisture ((perform DryWood ^^ 2) ?item) = dmul (dmul (dlit 10 0) d0_8) d0_8"
    by (simp add: new_WoodItem_def getMoisture_def setMoisture_def)
  also have "\<dots> = DFin False 7205759403792794 (- 50)"
    by (simp add: dlit_def d0_8_def round_fin_def rne_shift_def Let_def compute_bitlen)
  finally have code: "getMoisture ((perform DryWood ^^ 2) ?item)
      = DFin False 7205759403792794 (- 50)" .
  have "dpow d0_8 2 = dmul (dmul (dlit 1 0) d0_8) d0_8"
    by (simp add: numeral_2_eq_2)
  then have "spec_dry_moisture (getMoisture ?item) 2
      = dmul (dlit 10 0) (dmul (dmul (dlit 1 0) d0_8) d0_8)"
    by (simp only: spec_dry_moisture_def m)
  also have "\<dots> = DFin False 7205759403792795 (- 50)"
    by (simp add: dlit_def d0_8_def round_fin_def rne_shift_def Let_def compute_bitlen)
  finally have spec: "spec_dry_moisture (getMoisture ?item) 2
      = DFin False 7205759403792795 (- 50)" .
  have exact: "fin_val False 7205759403792794 (- 50) \<noteq> 10 * (4 / 5) ^ 2"
    "fin_val False 7205759403792794 (- 50)
       \<noteq> 10 * (fin_val False 7205759403792794 (- 53)) ^ 2"
    by (simp_all add: fin_val_def pow2_def power2_eq_square)
  show ?thesis
    using code spec exact by simp
qed

lemma perform_moisture_le:
  "valid_double (moisture_content item) \<Longrightarrow> dle dzero (moisture_content item) \<Longrightarrow>
   valid_double (moisture_content (perform a item))
   \<and> dle dzero (moisture_content (perform a item))
   \<and> dle (moisture_content (perform a item)) (moisture_content item)"
proof (induction a arbitrary: item)
  case (CutWood cut_length)
  then show ?case by (simp add: dle_refl)
next
  case DryWood
  then show ?case
    by (simp add: setMoisture_def getMoisture_def valid_dmul dmul_d0_8_le)
next
  case TreatWood
  then show ?case by (simp add: setTreated_def dle_refl)
next
  case (ConditionalTreatment inner_action condition_type condition_value)
  then show ?case by (simp add: dle_refl)
qed

lemma process_loop_moisture_le:
  "valid_double (moisture_content item) \<Longrightarrow> dle dzero (moisture_content item) \<Longrightarrow>
   dle (moisture_content (process_loop steps item)) (moisture_content item)"
proof (induction steps arbitrary: item)
  case Nil
  then show ?case by (simp add: dle_refl)
next
  case (Cons step steps)
  from perform_moisture_le [OF Cons.prems, of step]
  have v: "valid_double (moisture_content (perform step item))"
    and z: "dle dzero (moisture_content (perform step item))"
    and le: "dle (moisture_content (perform step item)) (moisture_content item)"
    by simp_all
  from Cons.IH [OF v z]
  have "dle (moisture_content (process_loop steps (perform step item)))
          (moisture_content (perform step item))" .
  with le show ?case
    by (simp add: dle_trans [where b = "moisture_content (perform step item)"])
qed

text \<open>
  C10. For an item whose moisture is a double \<open>m\<close> with \<open>m >= 0.0\<close> (so not NaN), the
  moisture after a call of \<open>process\<close> is less than or equal to \<open>m\<close>, whatever the
  actions are. \<open>valid_double\<close> says that the moisture is a double in its normalised
  representation, as every double of the program is.
\<close>

theorem moisture_nonincreasing:
  "valid_double (getMoisture item) \<Longrightarrow> dle dzero (getMoisture item) \<Longrightarrow>
   dle (getMoisture (process item)) (getMoisture item)"
  by (simp add: getMoisture_def process_def process_loop_moisture_le)

theorem moisture_nonincreasing_witness:
  "valid_double (getMoisture (new_WoodItem ''Teak'' (dlit 15 0) (dlit 15 0) False
      [DryWood, ConditionalTreatment DryWood ''MoistureAbove'' (dlit 10 0), TreatWood]))
   \<and> dle dzero (getMoisture (new_WoodItem ''Teak'' (dlit 15 0) (dlit 15 0) False
      [DryWood, ConditionalTreatment DryWood ''MoistureAbove'' (dlit 10 0), TreatWood]))
   \<and> dle (getMoisture (process (new_WoodItem ''Teak'' (dlit 15 0) (dlit 15 0) False
      [DryWood, ConditionalTreatment DryWood ''MoistureAbove'' (dlit 10 0), TreatWood])))
        (getMoisture (new_WoodItem ''Teak'' (dlit 15 0) (dlit 15 0) False
      [DryWood, ConditionalTreatment DryWood ''MoistureAbove'' (dlit 10 0), TreatWood]))"
  using moisture_nonincreasing
    [of "new_WoodItem ''Teak'' (dlit 15 0) (dlit 15 0) False
      [DryWood, ConditionalTreatment DryWood ''MoistureAbove'' (dlit 10 0), TreatWood]"]
  by (simp add: new_WoodItem_def getMoisture_def dzero_def dle_def dlit_def
        round_fin_def rne_shift_def Let_def compute_bitlen fin_val_def pow2_def)

subsection \<open>The inventory\<close>

lemma items_foldl_addItem: "items (foldl addItem inventory ps) = items inventory @ ps"
  by (induction ps arbitrary: inventory) (simp_all add: addItem_def)

text \<open>
  C4. After the calls \<open>addItem p\<^sub>0\<close>, ..., \<open>addItem p\<^sub>n\<^sub>-\<^sub>1\<close> on a new inventory,
  \<open>getItems\<close> returns exactly the sequence \<open>p\<^sub>0, ..., p\<^sub>n\<^sub>-\<^sub>1\<close>: its size is \<open>n\<close>
  and its \<open>i\<close>-th element is the \<open>i\<close>-th item added. The sequence of added items is
  arbitrary: it may repeat an item and has any length.
\<close>

theorem inventory_insertion_order:
  "getItems (foldl addItem new_WoodInventory ps) = ps
   \<and> length (getItems (foldl addItem new_WoodInventory ps)) = length ps
   \<and> (i < length ps \<longrightarrow> getItems (foldl addItem new_WoodInventory ps) ! i = ps ! i)"
  by (simp add: getItems_def items_foldl_addItem new_WoodInventory_def)

theorem inventory_insertion_order_witness:
  "(1::nat) < length [4, 7, 4 :: item_ptr]
   \<and> getItems (addItem (addItem (addItem new_WoodInventory 4) 7) 4) = [4, 7, 4]
   \<and> getItems (addItem (addItem (addItem new_WoodInventory 4) 7) 4) ! 1 = 7"
  using inventory_insertion_order [of "[4, 7, 4]" 1]
  by simp

subsection \<open>The tests and main\<close>

lemmas double_eval =
  dlit_def d0_8_def round_fin_def rne_shift_def Let_def compute_bitlen fin_val_def pow2_def

lemmas test_eval =
  new_WoodInventory_def new_WoodItem_def alloc_def addItem_def getItems_def processAll_def
  process_def getType_def getMoisture_def getThickness_def isTreated_def setMoisture_def
  setTreated_def dgt_def

lemma WoodTest_AddSingleItem_passes: "WoodTest_AddSingleItem"
  by (simp add: WoodTest_AddSingleItem_def test_eval)

lemma WoodTest_MultipleItemsCount_passes: "WoodTest_MultipleItemsCount"
  by (simp add: WoodTest_MultipleItemsCount_def test_eval)

lemma WoodTest_ProcessDrying_passes: "WoodTest_ProcessDrying"
  by (simp add: WoodTest_ProcessDrying_def test_eval double_eval)

lemma WoodTest_ConditionalTreatment_passes: "WoodTest_ConditionalTreatment"
  by (simp add: WoodTest_ConditionalTreatment_def test_eval double_eval)

lemma WoodTest_ThicknessUnchangedAfterProcessing_passes:
  "WoodTest_ThicknessUnchangedAfterProcessing"
  by (simp add: WoodTest_ThicknessUnchangedAfterProcessing_def test_eval double_eval)

lemma WoodTest_UntreatedWhenMoistureBelowThreshold_passes:
  "WoodTest_UntreatedWhenMoistureBelowThreshold"
  by (simp add: WoodTest_UntreatedWhenMoistureBelowThreshold_def test_eval double_eval)

text \<open>The third scenario of the specification: \<open>15.0 * 0.8\<close> is the double \<open>12.0\<close>.\<close>

lemma teak_dried:
  "getMoisture (process (new_WoodItem ''Teak'' (dlit 15 0) (dlit 15 0) False [DryWood]))
     = dlit 12 0"
  by (simp add: test_eval double_eval)

text \<open>
  C8. Whatever the six test cases return, \<open>main\<close> returns 0; the outcomes only show in
  the output, where each case is reported with its own outcome.
\<close>

theorem main_returns_zero:
  "snd (main t1 t2 t3 t4 t5 t6) = 0
   \<and> map (\<lambda>(test_group, test_name, outcome). outcome) (fst (main t1 t2 t3 t4 t5 t6))
       = [t1, t2, t3, t4, t5, t6]"
  by (simp add: main_def RUN_TEST_def)

end
